theory Spec2Isabelle
  imports Main "HOL-Library.Word"
begin

section \<open>The draft content client of draft-content-suggestions\<close>

text \<open>
  The development embeds \<^verbatim>\<open>draft/draft_content.go\<close> (the client of the draft content
  upstream) and \<^verbatim>\<open>commons.ValidateEndpoint\<close>. The Go standard library is outside the
  repository: \<^verbatim>\<open>url.ParseRequestURI\<close> and \<^verbatim>\<open>http.NewRequest\<close> are parameters of the
  functions that call them, the HTTP client is a value whose \<open>Do\<close> answers a request, and
  a response body is the stream of chunks a reader delivers.
\<close>

subsection \<open>Values of the Go runtime and standard library\<close>

type_synonym byte = "8 word"

text \<open>
  An \<^verbatim>\<open>error\<close> value: \<open>errorString\<close> is what \<^verbatim>\<open>errors.New\<close> builds; \<open>libraryError\<close> is
  an error built outside the repository (\<^verbatim>\<open>*url.Error\<close>, an I/O error ...), known by the
  name of its dynamic type and by the text of its \<^verbatim>\<open>Error()\<close> method. A nil error is
  \<open>None\<close> of \<open>error option\<close>.
\<close>

datatype error = errorString string | libraryError string string

fun Error :: "error \<Rightarrow> string" where
  "Error (errorString s) = s"
| "Error (libraryError kind s) = s"

text \<open>A runtime panic: \<^verbatim>\<open>Request.WithContext\<close> panics on a nil context, a method of a nil
  \<^verbatim>\<open>*http.Client\<close> dereferences the nil pointer.\<close>

datatype panic = NilContext | NilPointerDereference

text \<open>\<^verbatim>\<open>strings.HasPrefix\<close> and \<^verbatim>\<open>strings.HasSuffix\<close>.\<close>

definition HasPrefix :: "string \<Rightarrow> string \<Rightarrow> bool" where
  "HasPrefix s pre = (length pre \<le> length s \<and> take (length pre) s = pre)"

definition HasSuffix :: "string \<Rightarrow> string \<Rightarrow> bool" where
  "HasSuffix s suf = (length suf \<le> length s \<and> drop (length s - length suf) s = suf)"

text \<open>\<^verbatim>\<open>fmt.Sprintln\<close> on operands already rendered as text: a space between operands, a
  newline at the end.\<close>

fun Sprintln :: "string list \<Rightarrow> string" where
  "Sprintln [] = [CHR 0x0A]"
| "Sprintln [x] = x @ [CHR 0x0A]"
| "Sprintln (x # y # ys) = x @ '' '' @ Sprintln (y # ys)"

definition MethodGet :: string where
  "MethodGet = ''GET''"

definition StatusOK :: int where
  "StatusOK = 200"

definition StatusNotFound :: int where
  "StatusNotFound = 404"

text \<open>\<^verbatim>\<open>context.Context\<close>: the background context and contexts derived from it by
  \<^verbatim>\<open>context.WithValue\<close> (as \<^verbatim>\<open>commons.NewContextFromRequest\<close> derives one carrying the
  transaction id). A nil context is \<open>None\<close> of \<open>context option\<close>.\<close>

datatype "context" = Background | WithValue "context" string string

record request =
  Method :: string
  URL :: string
  Ctx :: "context"

text \<open>\<^verbatim>\<open>Request.WithContext\<close>: a copy of the request with its context changed; it panics on
  a nil context.\<close>

definition WithContext :: "request \<Rightarrow> context option \<Rightarrow> panic + request" where
  "WithContext r ctx = (case ctx of None \<Rightarrow> Inl NilContext | Some c \<Rightarrow> Inr (r\<lparr>Ctx := c\<rparr>))"

text \<open>A response body is a reader: it delivers chunks of bytes and ends with end-of-file
  or with a read error.\<close>

datatype body = EOF | Chunk "byte list" body | ReadError error

text \<open>\<^verbatim>\<open>ioutil.ReadAll\<close>: reads until end-of-file or an error and returns the bytes read so
  far with the error; end-of-file is not an error.\<close>

fun ReadAll :: "body \<Rightarrow> byte list \<times> error option" where
  "ReadAll EOF = ([], None)"
| "ReadAll (ReadError err) = ([], Some err)"
| "ReadAll (Chunk bs rest) = (case ReadAll rest of (data, err) \<Rightarrow> (bs @ data, err))"

record response =
  StatusCode :: int
  Body :: body

text \<open>\<^verbatim>\<open>*http.Client\<close>: \<open>Do\<close> answers a request with a transport error or a response.\<close>

record httpClient =
  Do :: "request \<Rightarrow> error + response"

text \<open>An entry of the process-wide logrus logger.\<close>

datatype level = ErrorLevel | WarnLevel | InfoLevel

record logEntry =
  Level :: level
  Message :: string
  Data :: "(string \<times> string) list"

subsection \<open>commons.ValidateEndpoint\<close>

definition ValidateEndpoint :: "(string \<Rightarrow> error option) \<Rightarrow> string \<Rightarrow> error option" where
  "ValidateEndpoint ParseRequestURI endpoint =
     (if \<not> HasPrefix endpoint ''http://'' \<and> \<not> HasPrefix endpoint ''https://''
      then Some (errorString (''Missing scheme in endpoint: '' @ endpoint))
      else (case ParseRequestURI endpoint of
              Some err \<Rightarrow>
                Some (errorString
                  (Sprintln [''Invalid endpoint configuration:'', Error err, '' for:'', endpoint]))
            | None \<Rightarrow> None))"

subsection \<open>draft.draftContentAPI\<close>

record draftContentAPI =
  endpoint :: string
  healthEndpoint :: string
  httpClient :: "httpClient option"

definition IsValid :: "(string \<Rightarrow> error option) \<Rightarrow> draftContentAPI \<Rightarrow> error option" where
  "IsValid ParseRequestURI d = ValidateEndpoint ParseRequestURI (endpoint d)"

definition NewContentAPI ::
  "(string \<Rightarrow> error option) \<Rightarrow> string \<Rightarrow> string \<Rightarrow> httpClient option
     \<Rightarrow> error + draftContentAPI" where
  "NewContentAPI ParseRequestURI endpoint0 healthEndpoint0 client =
     (let endpoint1 = (if \<not> HasSuffix endpoint0 ''/'' then endpoint0 @ ''/'' else endpoint0);
          contentAPI = \<lparr>endpoint = endpoint1, healthEndpoint = healthEndpoint0,
                        httpClient = client\<rparr>
      in case IsValid ParseRequestURI contentAPI of
           Some err \<Rightarrow> Inl err
         | None \<Rightarrow> Inr contentAPI)"

definition Endpoint :: "draftContentAPI \<Rightarrow> string" where
  "Endpoint d = endpoint d"

definition requestPath :: "draftContentAPI \<Rightarrow> string \<Rightarrow> string" where
  "requestPath d uuid = endpoint d @ uuid"

text \<open>\<open>FetchDraftContent\<close> returns Go's pair (content, error): \<open>None\<close> is nil. The result is
  \<open>Inl\<close> when the call panics. The deferred \<^verbatim>\<open>response.Body.Close()\<close> releases the
  connection and its error is dropped: it does not change what is returned.\<close>

definition FetchDraftContent ::
  "(string \<Rightarrow> string \<Rightarrow> error + request) \<Rightarrow> draftContentAPI \<Rightarrow> context option \<Rightarrow> string
     \<Rightarrow> panic + (byte list option \<times> error option)" where
  "FetchDraftContent NewRequest d ctx uuid =
     (case NewRequest MethodGet (requestPath d uuid) of
        Inl err \<Rightarrow> Inr (None, Some err)
      | Inr request \<Rightarrow>
          (case WithContext request ctx of
             Inl p \<Rightarrow> Inl p
           | Inr request' \<Rightarrow>
               (case httpClient d of
                  None \<Rightarrow> Inl NilPointerDereference
                | Some client \<Rightarrow>
                    (case Do client request' of
                       Inl err \<Rightarrow> Inr (None, Some err)
                     | Inr response \<Rightarrow>
                         if StatusCode response = StatusNotFound then Inr (None, None)
                         else (case ReadAll (Body response) of
                                 (bytes, Some err) \<Rightarrow> Inr (None, Some err)
                               | (bytes, None) \<Rightarrow> Inr (Some bytes, None))))))"

text \<open>\<open>IsGTG\<close> returns Go's pair (message, error) and the entries of the logger after the
  call, given the entries before it.\<close>

definition IsGTG ::
  "(string \<Rightarrow> string \<Rightarrow> error + request) \<Rightarrow> draftContentAPI \<Rightarrow> context option
     \<Rightarrow> logEntry list \<Rightarrow> panic + ((string \<times> error option) \<times> logEntry list)" where
  "IsGTG NewRequest d ctx entries =
     (case NewRequest MethodGet (healthEndpoint d) of
        Inl err \<Rightarrow> Inr (('''', Some err), entries)
      | Inr request \<Rightarrow>
          (case WithContext request ctx of
             Inl p \<Rightarrow> Inl p
           | Inr request' \<Rightarrow>
               (case httpClient d of
                  None \<Rightarrow> Inl NilPointerDereference
                | Some client \<Rightarrow>
                    (case Do client request' of
                       Inl err \<Rightarrow> Inr (('''', Some err), entries)
                     | Inr response \<Rightarrow>
                         if StatusCode response \<noteq> StatusOK
                         then Inr (('''', Some (errorString ''draft-content-api endpoint is unhealthy'')),
                                   entries)
                         else Inr ((''draft-content-api is healthy'', None), entries)))))"

section \<open>Facts shared by the proofs\<close>

lemma HasPrefix_iff: "HasPrefix s pre \<longleftrightarrow> (\<exists>t. s = pre @ t)"
proof
  assume "HasPrefix s pre"
  then have "s = pre @ drop (length pre) s"
    by (metis HasPrefix_def append_take_drop_id)
  then show "\<exists>t. s = pre @ t" ..
next
  assume "\<exists>t. s = pre @ t"
  then show "HasPrefix s pre" by (auto simp: HasPrefix_def)
qed

lemma HasSuffix_iff: "HasSuffix s suf \<longleftrightarrow> (\<exists>t. s = t @ suf)"
proof
  assume "HasSuffix s suf"
  then have "s = take (length s - length suf) s @ suf"
    by (metis HasSuffix_def append_take_drop_id)
  then show "\<exists>t. s = t @ suf" ..
next
  assume "\<exists>t. s = t @ suf"
  then show "HasSuffix s suf" by (auto simp: HasSuffix_def)
qed

lemma HasSuffix_slash_append: "HasSuffix (e @ ''/'') ''/''"
  by (simp add: HasSuffix_def)

text \<open>Appending the missing slash does not change whether a string starts with a prefix
  that itself ends in two slashes: the only string that would gain the prefix is the prefix
  without its last slash, and that string already ends with a slash.\<close>

lemma HasPrefix_append_slash:
  assumes "\<not> HasSuffix e ''/''"
  shows "HasPrefix (e @ ''/'') (q @ ''//'') = HasPrefix e (q @ ''//'')"
proof
  assume "HasPrefix (e @ ''/'') (q @ ''//'')"
  then obtain t where t: "e @ ''/'' = (q @ ''//'') @ t"
    by (auto simp: HasPrefix_iff)
  show "HasPrefix e (q @ ''//'')"
  proof (cases t rule: rev_cases)
    case Nil
    with t have "e = q @ ''/''" by simp
    with assms show ?thesis by (simp add: HasSuffix_iff)
  next
    case (snoc t' x)
    with t have "e = (q @ ''//'') @ t'" by simp
    then show ?thesis unfolding HasPrefix_iff by blast
  qed
next
  assume "HasPrefix e (q @ ''//'')"
  then show "HasPrefix (e @ ''/'') (q @ ''//'')"
    by (auto simp: HasPrefix_iff)
qed

lemma scheme_prefix_normalized:
  "HasPrefix (if \<not> HasSuffix e ''/'' then e @ ''/'' else e) ''http://'' = HasPrefix e ''http://''"
  "HasPrefix (if \<not> HasSuffix e ''/'' then e @ ''/'' else e) ''https://'' = HasPrefix e ''https://''"
  using HasPrefix_append_slash [of e "''http:''"] HasPrefix_append_slash [of e "''https:''"]
  by auto

lemma NewContentAPI_Inr:
  "NewContentAPI P e h c = Inr d \<Longrightarrow>
     d = \<lparr>endpoint = (if HasSuffix e ''/'' then e else e @ ''/''), healthEndpoint = h,
          httpClient = c\<rparr>"
  by (auto simp: NewContentAPI_def Let_def split: option.splits if_splits)

text \<open>What \<open>FetchDraftContent\<close> returns once the upstream has answered the request.\<close>

lemma FetchDraftContent_response:
  assumes "NewRequest MethodGet (endpoint d @ uuid) = Inr req"
    and "httpClient d = Some client"
    and "Do client (req\<lparr>Ctx := c\<rparr>) = Inr resp"
  shows "FetchDraftContent NewRequest d (Some c) uuid =
     Inr (if StatusCode resp = 404 then (None, None)
          else (case ReadAll (Body resp) of
                  (bytes, Some err) \<Rightarrow> (None, Some err)
                | (bytes, None) \<Rightarrow> (Some bytes, None)))"
  using assms
  by (simp add: FetchDraftContent_def requestPath_def WithContext_def StatusNotFound_def
      split: prod.splits option.splits)

section \<open>FetchDraftContent\<close>

text \<open>
  C1. The claim: when the content upstream answers with a status that is neither 2xx nor
  404, \<open>FetchDraftContent\<close> returns nil content and a non-nil error describing the status
  (the test \<^verbatim>\<open>TestDraftContentAPI_FetchDraftContentNon200\<close> expects the error
  \<^verbatim>\<open>error in draft content retrival status=500\<close>). The function compares the status with
  404 only: on a 500 response with a readable body it returns that body and a nil error.
\<close>

theorem C1_status_500_returns_body:
  "FetchDraftContent (\<lambda>m u. Inr \<lparr>Method = m, URL = u, Ctx = Background\<rparr>)
     \<lparr>endpoint = ''http://localhost/drafts/content/'', healthEndpoint = ''http://localhost/__gtg'',
      httpClient = Some \<lparr>Do = (\<lambda>r. Inr \<lparr>StatusCode = 500, Body = Chunk [102, 97, 105, 108] EOF\<rparr>)\<rparr>\<rparr>
     (Some Background) ''6f14ea94'' = Inr (Some [102, 97, 105, 108], None)"
  by (simp add: FetchDraftContent_def WithContext_def StatusNotFound_def)

text \<open>
  C2. When the content upstream answers the request with status 404, \<open>FetchDraftContent\<close>
  returns (nil, nil): nil content and nil error, whatever the body of the 404 response is.
\<close>

theorem C2_not_found_is_nil_nil:
  assumes "NewRequest MethodGet (endpoint d @ uuid) = Inr req"
    and "httpClient d = Some client"
    and "Do client (req\<lparr>Ctx := c\<rparr>) = Inr resp"
    and "StatusCode resp = 404"
  shows "FetchDraftContent NewRequest d (Some c) uuid = Inr (None, None)"
  using assms
  by (simp add: FetchDraftContent_def requestPath_def WithContext_def StatusNotFound_def)

theorem C2_not_found_witness:
  "FetchDraftContent (\<lambda>m u. Inr \<lparr>Method = m, URL = u, Ctx = Background\<rparr>)
     \<lparr>endpoint = ''http://localhost/drafts/content/'', healthEndpoint = ''http://localhost/__gtg'',
      httpClient = Some \<lparr>Do = (\<lambda>r. Inr \<lparr>StatusCode = 404,
        Body = Chunk [1, 2] (ReadError (libraryError ''*errors.errorString'' ''unexpected EOF''))\<rparr>)\<rparr>\<rparr>
     (Some Background) ''missing'' = Inr (None, None)"
  using C2_not_found_is_nil_nil
    [where NewRequest = "\<lambda>m u. Inr \<lparr>Method = m, URL = u, Ctx = Background\<rparr>"
       and d = "\<lparr>endpoint = ''http://localhost/drafts/content/'',
                 healthEndpoint = ''http://localhost/__gtg'',
                 httpClient = Some \<lparr>Do = (\<lambda>r. Inr \<lparr>StatusCode = 404,
                   Body = Chunk [1, 2] (ReadError (libraryError ''*errors.errorString'' ''unexpected EOF''))\<rparr>)\<rparr>\<rparr>"
       and uuid = "''missing''" and c = Background]
  by simp

text \<open>
  C3. When the content upstream answers with a 2xx status and the body reads to the end as
  the bytes \<open>B\<close>, \<open>FetchDraftContent\<close> returns \<open>(B, nil)\<close>: the same bytes, in the same
  order, and a nil error.
\<close>

theorem C3_success_returns_body:
  assumes "NewRequest MethodGet (endpoint d @ uuid) = Inr req"
    and "httpClient d = Some client"
    and "Do client (req\<lparr>Ctx := c\<rparr>) = Inr resp"
    and "200 \<le> StatusCode resp" and "StatusCode resp \<le> 299"
    and "ReadAll (Body resp) = (B, None)"
  shows "FetchDraftContent NewRequest d (Some c) uuid = Inr (Some B, None)"
  using assms by (simp add: FetchDraftContent_response)

theorem C3_success_witness:
  "FetchDraftContent (\<lambda>m u. Inr \<lparr>Method = m, URL = u, Ctx = Background\<rparr>)
     \<lparr>endpoint = ''http://localhost/drafts/content/'', healthEndpoint = ''http://localhost/__gtg'',
      httpClient = Some \<lparr>Do = (\<lambda>r. Inr \<lparr>StatusCode = 200,
        Body = Chunk [123, 34] (Chunk [34, 125] EOF)\<rparr>)\<rparr>\<rparr>
     (Some Background) ''6f14ea94'' = Inr (Some [123, 34, 34, 125], None)"
  using C3_success_returns_body
    [where NewRequest = "\<lambda>m u. Inr \<lparr>Method = m, URL = u, Ctx = Background\<rparr>"
       and d = "\<lparr>endpoint = ''http://localhost/drafts/content/'',
                 healthEndpoint = ''http://localhost/__gtg'',
                 httpClient = Some \<lparr>Do = (\<lambda>r. Inr \<lparr>StatusCode = 200,
                   Body = Chunk [123, 34] (Chunk [34, 125] EOF)\<rparr>)\<rparr>\<rparr>"
       and uuid = "''6f14ea94''" and c = Background and B = "[123, 34, 34, 125]"]
  by simp

text \<open>
  C7. When request construction fails, \<open>FetchDraftContent\<close> returns nil content and the
  error of \<^verbatim>\<open>http.NewRequest\<close> itself; when the transport fails, it returns nil content and
  the error of the client's \<open>Do\<close> itself. In both cases the error value is the one the
  library returned, not a new error built from it.
\<close>

theorem C7_failures_propagate_unchanged:
  "(NewRequest MethodGet (endpoint d @ uuid) = Inl err \<longrightarrow>
      FetchDraftContent NewRequest d ctx uuid = Inr (None, Some err)) \<and>
   (NewRequest MethodGet (endpoint d @ uuid) = Inr req \<and> httpClient d = Some client \<and>
      Do client (req\<lparr>Ctx := c\<rparr>) = Inl err \<longrightarrow>
      FetchDraftContent NewRequest d (Some c) uuid = Inr (None, Some err))"
  by (simp add: FetchDraftContent_def requestPath_def WithContext_def)

theorem C7_failures_witness:
  "FetchDraftContent (\<lambda>m u. Inl (libraryError ''*url.Error'' ''parse: invalid URL escape''))
     \<lparr>endpoint = ''http://localhost/drafts/content/'', healthEndpoint = ''http://localhost/__gtg'',
      httpClient = None\<rparr> None ''%zz''
     = Inr (None, Some (libraryError ''*url.Error'' ''parse: invalid URL escape'')) \<and>
   FetchDraftContent (\<lambda>m u. Inr \<lparr>Method = m, URL = u, Ctx = Background\<rparr>)
     \<lparr>endpoint = ''http://localhost/drafts/content/'', healthEndpoint = ''http://localhost/__gtg'',
      httpClient = Some \<lparr>Do = (\<lambda>r. Inl (libraryError ''*url.Error'' ''Get: connection refused''))\<rparr>\<rparr>
     (Some Background) ''6f14ea94''
     = Inr (None, Some (libraryError ''*url.Error'' ''Get: connection refused''))"
  using C7_failures_propagate_unchanged
    [where NewRequest = "\<lambda>m u. Inl (libraryError ''*url.Error'' ''parse: invalid URL escape'')"
       and d = "\<lparr>endpoint = ''http://localhost/drafts/content/'',
                 healthEndpoint = ''http://localhost/__gtg'', httpClient = None\<rparr>"
       and uuid = "''%zz''" and ctx = None
       and err = "libraryError ''*url.Error'' ''parse: invalid URL escape''"]
    C7_failures_propagate_unchanged
    [where NewRequest = "\<lambda>m u. Inr \<lparr>Method = m, URL = u, Ctx = Background\<rparr>"
       and d = "\<lparr>endpoint = ''http://localhost/drafts/content/'',
                 healthEndpoint = ''http://localhost/__gtg'',
                 httpClient = Some \<lparr>Do = (\<lambda>r. Inl (libraryError ''*url.Error'' ''Get: connection refused''))\<rparr>\<rparr>"
       and uuid = "''6f14ea94''" and c = Background
       and err = "libraryError ''*url.Error'' ''Get: connection refused''"]
  by simp

text \<open>
  C8. The claim: when the upstream answers with status 422, the fetch returns the sentinel
  error \<^verbatim>\<open>ErrDraftNotMappable\<close> (the test
  \<^verbatim>\<open>TestDraftContentAPI_FetchDraftContentUnmappable\<close> expects it of \<open>FetchDraftContent\<close>).
  The function returns no error at all on a 422 response with a readable body: it returns
  the body.
\<close>

theorem C8_status_422_returns_body:
  "FetchDraftContent (\<lambda>m u. Inr \<lparr>Method = m, URL = u, Ctx = Background\<rparr>)
     \<lparr>endpoint = ''http://localhost/drafts/content/'', healthEndpoint = ''http://localhost/__gtg'',
      httpClient = Some \<lparr>Do = (\<lambda>r. Inr \<lparr>StatusCode = 422, Body = Chunk [123, 125] EOF\<rparr>)\<rparr>\<rparr>
     (Some Background) ''6f14ea94'' = Inr (Some [123, 125], None)"
  by (simp add: FetchDraftContent_def WithContext_def StatusNotFound_def)

text \<open>
  C10. When the upstream answers with a status other than 404 and reading the body fails
  after some bytes, \<open>FetchDraftContent\<close> returns nil content and the read error: the bytes
  read before the failure are not returned.
\<close>

theorem C10_read_failure_returns_no_content:
  assumes "NewRequest MethodGet (endpoint d @ uuid) = Inr req"
    and "httpClient d = Some client"
    and "Do client (req\<lparr>Ctx := c\<rparr>) = Inr resp"
    and "StatusCode resp \<noteq> 404"
    and "ReadAll (Body resp) = (partial, Some err)"
  shows "FetchDraftContent NewRequest d (Some c) uuid = Inr (None, Some err)"
  using assms by (simp add: FetchDraftContent_response)

theorem C10_read_failure_witness:
  "FetchDraftContent (\<lambda>m u. Inr \<lparr>Method = m, URL = u, Ctx = Background\<rparr>)
     \<lparr>endpoint = ''http://localhost/drafts/content/'', healthEndpoint = ''http://localhost/__gtg'',
      httpClient = Some \<lparr>Do = (\<lambda>r. Inr \<lparr>StatusCode = 200,
        Body = Chunk [123, 34] (ReadError (libraryError ''*errors.errorString'' ''unexpected EOF''))\<rparr>)\<rparr>\<rparr>
     (Some Background) ''6f14ea94''
   = Inr (None, Some (libraryError ''*errors.errorString'' ''unexpected EOF''))"
  using C10_read_failure_returns_no_content
    [where NewRequest = "\<lambda>m u. Inr \<lparr>Method = m, URL = u, Ctx = Background\<rparr>"
       and d = "\<lparr>endpoint = ''http://localhost/drafts/content/'',
                 healthEndpoint = ''http://localhost/__gtg'',
                 httpClient = Some \<lparr>Do = (\<lambda>r. Inr \<lparr>StatusCode = 200,
                   Body = Chunk [123, 34] (ReadError (libraryError ''*errors.errorString'' ''unexpected EOF''))\<rparr>)\<rparr>\<rparr>"
       and uuid = "''6f14ea94''" and c = Background and partial = "[123, 34]"]
  by simp

section \<open>NewContentAPI\<close>

text \<open>
  C4. \<open>NewContentAPI\<close> returns an error, and then no client, exactly when the endpoint
  lacks both the \<^verbatim>\<open>http://\<close> and the \<^verbatim>\<open>https://\<close> prefix or the base URL fails
  request-URI parsing. The base URL that is parsed is the one the client keeps: the
  endpoint with its trailing slash; the test of the scheme prefix gives the same answer on
  the endpoint as given. For a parser whose verdict on the endpoint the appended slash does
  not change, the parsing test may be read on the endpoint as given too. The validation is
  a function of the endpoint string alone: the error does not depend on the health
  endpoint or on the HTTP client, which is not called. It happens in the constructor;
  \<open>FetchDraftContent\<close> and \<open>IsGTG\<close> take no parser and validate nothing.
\<close>

theorem C4_construction_fails_iff:
  "((\<exists>err. NewContentAPI P e h c = Inl err) \<longleftrightarrow>
      (\<not> HasPrefix e ''http://'' \<and> \<not> HasPrefix e ''https://'') \<or>
      P (if HasSuffix e ''/'' then e else e @ ''/'') \<noteq> None) \<and>
   (HasSuffix e ''/'' \<or> (P (e @ ''/'') = None) = (P e = None) \<longrightarrow>
      ((\<exists>err. NewContentAPI P e h c = Inl err) \<longleftrightarrow>
         (\<not> HasPrefix e ''http://'' \<and> \<not> HasPrefix e ''https://'') \<or> P e \<noteq> None)) \<and>
   ((\<exists>d. NewContentAPI P e h c = Inr d) \<longleftrightarrow> \<not> (\<exists>err. NewContentAPI P e h c = Inl err)) \<and>
   ((NewContentAPI P e h c = Inl err) = (NewContentAPI P e h' c' = Inl err))"
proof -
  have v: "NewContentAPI P e h c =
      (case ValidateEndpoint P (if \<not> HasSuffix e ''/'' then e @ ''/'' else e) of
         Some err \<Rightarrow> Inl err
       | None \<Rightarrow> Inr \<lparr>endpoint = (if \<not> HasSuffix e ''/'' then e @ ''/'' else e),
                        healthEndpoint = h, httpClient = c\<rparr>)" for h c
    by (simp add: NewContentAPI_def IsValid_def Let_def)
  have 1: "(\<exists>err. NewContentAPI P e h c = Inl err) \<longleftrightarrow>
      (\<not> HasPrefix e ''http://'' \<and> \<not> HasPrefix e ''https://'') \<or>
      P (if HasSuffix e ''/'' then e else e @ ''/'') \<noteq> None"
    unfolding v ValidateEndpoint_def scheme_prefix_normalized
    by (auto split: option.splits)
  have 2: "(\<exists>err. NewContentAPI P e h c = Inl err) \<longleftrightarrow>
         (\<not> HasPrefix e ''http://'' \<and> \<not> HasPrefix e ''https://'') \<or> P e \<noteq> None"
    if "HasSuffix e ''/'' \<or> (P (e @ ''/'') = None) = (P e = None)"
  proof (cases "HasSuffix e ''/''")
    case True
    with 1 show ?thesis by simp
  next
    case False
    with that have "(P (e @ ''/'') \<noteq> None) = (P e \<noteq> None)" by simp
    with 1 False show ?thesis by simp
  qed
  have 3: "(\<exists>d. NewContentAPI P e h c = Inr d) \<longleftrightarrow> \<not> (\<exists>err. NewContentAPI P e h c = Inl err)"
    by (cases "NewContentAPI P e h c") simp_all
  have 4: "(NewContentAPI P e h c = Inl err) = (NewContentAPI P e h' c' = Inl err)"
    unfolding v by (simp split: option.splits)
  from 1 2 3 4 show ?thesis by blast
qed

theorem C4_construction_witness:
  "(\<exists>err. NewContentAPI (\<lambda>u. None) ''localhost/drafts/content'' ''http://localhost/__gtg'' None = Inl err) \<and>
   (\<exists>err. NewContentAPI (\<lambda>u. Some (libraryError ''*url.Error'' ''parse: invalid URL escape''))
      ''http://localhost/%zz'' ''http://localhost/__gtg'' None = Inl err) \<and>
   (\<exists>d. NewContentAPI (\<lambda>u. None) ''http://localhost/drafts/content'' ''http://localhost/__gtg'' None = Inr d)"
  using C4_construction_fails_iff
    [of "\<lambda>u. None" "''localhost/drafts/content''" "''http://localhost/__gtg''" None]
    C4_construction_fails_iff
    [of "\<lambda>u. Some (libraryError ''*url.Error'' ''parse: invalid URL escape'')"
        "''http://localhost/%zz''" "''http://localhost/__gtg''" None]
    C4_construction_fails_iff
    [of "\<lambda>u. None" "''http://localhost/drafts/content''" "''http://localhost/__gtg''" None]
  by (simp add: HasPrefix_def)

text \<open>
  C9, as amended. For every endpoint \<open>e\<close> that \<open>NewContentAPI\<close> accepts, the client's
  \<open>Endpoint()\<close> ends with a slash: it is \<open>e\<close> when \<open>e\<close> ends with a slash and \<open>e\<close> followed
  by a slash otherwise. When \<open>e\<close> does not end with a slash, constructing from \<open>e\<close> followed
  by a slash yields the same client. \<open>FetchDraftContent\<close> hands \<^verbatim>\<open>http.NewRequest\<close> the
  URL \<open>Endpoint()\<close> followed by the identifier: a failure of request construction at that
  URL is the result of the call, and the result depends on request construction at no
  other URL.
\<close>

theorem C9_endpoint_normalized:
  assumes "NewContentAPI P e h c = Inr d"
  shows "HasSuffix (Endpoint d) ''/'' \<and>
         Endpoint d = (if HasSuffix e ''/'' then e else e @ ''/'') \<and>
         (\<not> HasSuffix e ''/'' \<longrightarrow> NewContentAPI P (e @ ''/'') h c = Inr d) \<and>
         requestPath d uuid = Endpoint d @ uuid \<and>
         (\<forall>NR err. NR MethodGet (Endpoint d @ uuid) = Inl err \<longrightarrow>
            FetchDraftContent NR d ctx uuid = Inr (None, Some err)) \<and>
         (\<forall>NR NR'. NR MethodGet (Endpoint d @ uuid) = NR' MethodGet (Endpoint d @ uuid) \<longrightarrow>
            FetchDraftContent NR d ctx uuid = FetchDraftContent NR' d ctx uuid)"
proof -
  have d: "d = \<lparr>endpoint = (if HasSuffix e ''/'' then e else e @ ''/''), healthEndpoint = h,
                  httpClient = c\<rparr>"
    using assms by (rule NewContentAPI_Inr)
  have 1: "HasSuffix (Endpoint d) ''/''"
    by (simp add: d Endpoint_def HasSuffix_slash_append)
  have 2: "Endpoint d = (if HasSuffix e ''/'' then e else e @ ''/'')"
    by (simp add: d Endpoint_def)
  have 3: "\<not> HasSuffix e ''/'' \<longrightarrow> NewContentAPI P (e @ ''/'') h c = Inr d"
  proof
    assume n: "\<not> HasSuffix e ''/''"
    have "NewContentAPI P (e @ ''/'') h c = NewContentAPI P e h c"
      using n by (simp add: NewContentAPI_def HasSuffix_slash_append)
    with assms show "NewContentAPI P (e @ ''/'') h c = Inr d" by simp
  qed
  have 4: "requestPath d uuid = Endpoint d @ uuid"
    by (simp add: requestPath_def Endpoint_def)
  have 5: "\<forall>NR err. NR MethodGet (Endpoint d @ uuid) = Inl err \<longrightarrow>
            FetchDraftContent NR d ctx uuid = Inr (None, Some err)"
    by (simp add: FetchDraftContent_def requestPath_def Endpoint_def)
  have 6: "\<forall>NR NR'. NR MethodGet (Endpoint d @ uuid) = NR' MethodGet (Endpoint d @ uuid) \<longrightarrow>
            FetchDraftContent NR d ctx uuid = FetchDraftContent NR' d ctx uuid"
    by (simp add: FetchDraftContent_def requestPath_def Endpoint_def)
  from 1 2 3 4 5 6 show ?thesis by blast
qed

theorem C9_endpoint_witness:
  "NewContentAPI (\<lambda>u. None) ''http://localhost/drafts/content'' ''http://localhost/__gtg'' None
     = Inr \<lparr>endpoint = ''http://localhost/drafts/content/'',
            healthEndpoint = ''http://localhost/__gtg'', httpClient = None\<rparr> \<and>
   HasSuffix (Endpoint \<lparr>endpoint = ''http://localhost/drafts/content/'',
            healthEndpoint = ''http://localhost/__gtg'', httpClient = None\<rparr>) ''/'' \<and>
   NewContentAPI (\<lambda>u. None) (''http://localhost/drafts/content'' @ ''/'') ''http://localhost/__gtg'' None
     = Inr \<lparr>endpoint = ''http://localhost/drafts/content/'',
            healthEndpoint = ''http://localhost/__gtg'', httpClient = None\<rparr> \<and>
   requestPath \<lparr>endpoint = ''http://localhost/drafts/content/'',
            healthEndpoint = ''http://localhost/__gtg'', httpClient = None\<rparr> ''6f14ea94''
     = ''http://localhost/drafts/content/6f14ea94''"
proof -
  have n: "NewContentAPI (\<lambda>u. None) ''http://localhost/drafts/content'' ''http://localhost/__gtg'' None
     = Inr \<lparr>endpoint = ''http://localhost/drafts/content/'',
            healthEndpoint = ''http://localhost/__gtg'', httpClient = None\<rparr>"
    by (simp add: NewContentAPI_def IsValid_def ValidateEndpoint_def HasPrefix_def HasSuffix_def)
  have s: "\<not> HasSuffix ''http://localhost/drafts/content'' ''/''"
    by (simp add: HasSuffix_def)
  from C9_endpoint_normalized [OF n, of "''6f14ea94''"] n s show ?thesis
    by (simp add: Endpoint_def)
qed

text \<open>
  The claim as written says that constructing from \<open>e\<close> and from \<open>e\<close> followed by a slash
  yields equal endpoints for every accepted \<open>e\<close>. It fails for an endpoint that already
  ends with a slash: no slash is appended to \<^verbatim>\<open>http://a/\<close>, and none to \<^verbatim>\<open>http://a//\<close>.
  Both are accepted (the scheme is there, and \<^verbatim>\<open>url.ParseRequestURI\<close> accepts both), and
  the two clients have different endpoints.
\<close>

theorem C9_counterexample:
  "NewContentAPI (\<lambda>u. None) ''http://a/'' ''http://a/__gtg'' None
     = Inr \<lparr>endpoint = ''http://a/'', healthEndpoint = ''http://a/__gtg'', httpClient = None\<rparr> \<and>
   NewContentAPI (\<lambda>u. None) (''http://a/'' @ ''/'') ''http://a/__gtg'' None
     = Inr \<lparr>endpoint = ''http://a//'', healthEndpoint = ''http://a/__gtg'', httpClient = None\<rparr> \<and>
   Endpoint \<lparr>endpoint = ''http://a/'', healthEndpoint = ''http://a/__gtg'', httpClient = None\<rparr>
     \<noteq> Endpoint \<lparr>endpoint = ''http://a//'', healthEndpoint = ''http://a/__gtg'', httpClient = None\<rparr>"
  by (simp add: NewContentAPI_def IsValid_def ValidateEndpoint_def HasPrefix_def HasSuffix_def
      Endpoint_def)

section \<open>IsGTG\<close>

text \<open>
  C5, as amended. When the health endpoint answers with status 200, \<open>IsGTG\<close> returns the
  fixed message \<^verbatim>\<open>draft-content-api is healthy\<close>, which names the dependency, and a nil
  error, and the logger holds the entries it held before the call.
\<close>

theorem C5_healthy_on_200:
  assumes "NewRequest MethodGet (healthEndpoint d) = Inr req"
    and "httpClient d = Some client"
    and "Do client (req\<lparr>Ctx := c\<rparr>) = Inr resp"
    and "StatusCode resp = 200"
  shows "IsGTG NewRequest d (Some c) entries = Inr ((''draft-content-api is healthy'', None), entries)"
  using assms by (simp add: IsGTG_def WithContext_def StatusOK_def)

theorem C5_healthy_witness:
  "IsGTG (\<lambda>m u. Inr \<lparr>Method = m, URL = u, Ctx = Background\<rparr>)
     \<lparr>endpoint = ''http://localhost/drafts/content/'', healthEndpoint = ''http://localhost/__gtg'',
      httpClient = Some \<lparr>Do = (\<lambda>r. Inr \<lparr>StatusCode = 200, Body = EOF\<rparr>)\<rparr>\<rparr>
     (Some Background) [] = Inr ((''draft-content-api is healthy'', None), [])"
  using C5_healthy_on_200
    [where NewRequest = "\<lambda>m u. Inr \<lparr>Method = m, URL = u, Ctx = Background\<rparr>"
       and d = "\<lparr>endpoint = ''http://localhost/drafts/content/'',
                 healthEndpoint = ''http://localhost/__gtg'',
                 httpClient = Some \<lparr>Do = (\<lambda>r. Inr \<lparr>StatusCode = 200, Body = EOF\<rparr>)\<rparr>\<rparr>"
       and c = Background and entries = "[]"]
  by simp

text \<open>
  The claim as written covers every 2xx status. The function compares the status with 200:
  on a 204 response it returns the empty message and an error.
\<close>

theorem C5_counterexample:
  "IsGTG (\<lambda>m u. Inr \<lparr>Method = m, URL = u, Ctx = Background\<rparr>)
     \<lparr>endpoint = ''http://localhost/drafts/content/'', healthEndpoint = ''http://localhost/__gtg'',
      httpClient = Some \<lparr>Do = (\<lambda>r. Inr \<lparr>StatusCode = 204, Body = EOF\<rparr>)\<rparr>\<rparr>
     (Some Background) []
   = Inr (('''', Some (errorString ''draft-content-api endpoint is unhealthy'')), [])"
  by (simp add: IsGTG_def WithContext_def StatusOK_def)

text \<open>
  C6. The claim: on a non-2xx answer of the health endpoint \<open>IsGTG\<close> returns an error and
  emits exactly one error-level log entry, with the fields status and healthEndpoint (the
  test \<^verbatim>\<open>TestDraftContentAPI_IsGTGFailure503\<close> expects it). The function returns the
  error and logs nothing: on a 503 response a logger without entries still has none.
\<close>

theorem C6_status_503_logs_nothing:
  "IsGTG (\<lambda>m u. Inr \<lparr>Method = m, URL = u, Ctx = Background\<rparr>)
     \<lparr>endpoint = ''http://localhost/drafts/content/'', healthEndpoint = ''http://localhost/__gtg'',
      httpClient = Some \<lparr>Do = (\<lambda>r. Inr \<lparr>StatusCode = 503, Body = EOF\<rparr>)\<rparr>\<rparr>
     (Some Background) []
   = Inr (('''', Some (errorString ''draft-content-api endpoint is unhealthy'')), [])"
  by (simp add: IsGTG_def WithContext_def StatusOK_def)

end
